theory Spec2Isabelle
  imports Main "HOL-Library.Word"
begin

unbundle bit_operations_syntax

section \<open>Data model\<close>

type_synonym u8 = "8 word"
type_synonym u16 = "16 word"

text \<open>
  Modelled from the spec: the Pin Set of \<open>lr35902_struct.hpp\<close>, which is not among the
  sources. Section 3 of the specification gives the widths: a 16-bit address whose bit 15 is
  A15, an 8-bit data bus, and four boolean lines. The field names are those the code uses
  through \<open>cpu->pins\<close>.
\<close>

record pins_t =
  a :: u16
  d :: u8
  rd :: bool
  wr :: bool
  cs :: bool
  phi :: bool

text \<open>
  Modelled from the spec: the enumerations of \<open>cpu_struct.hpp\<close> and
  \<open>cpu_instructions.hpp\<close>, which are not among the sources. The code names
  \<open>ST_FETCH\<close>, \<open>ST_EXECUTE\<close>, \<open>ST_TEST\<close> and \<open>IS_LAST_CYCLE\<close>; section 6
  of the specification says the completion status has two values, so the other one
  ("more cycles remain") is called \<open>IS_EXECUTING\<close> here.
\<close>

datatype cpu_state_t = ST_FETCH | ST_EXECUTE | ST_TEST

datatype instruction_state_t = IS_EXECUTING | IS_LAST_CYCLE

text \<open>
  The two bus-arbiter references held by the core. They are only assigned by \<open>cpu_init\<close>
  and never dereferenced in the code under study, so a reference is just a tag.
\<close>

datatype bus_set_ptr = null_bus_set | lr35902_main_bus_set | lr35902_vram_bus_set

text \<open>
  Modelled from the spec: \<open>cpu_t\<close> of \<open>cpu_struct.hpp\<close>, which is not among the
  sources. The fields are the ones \<open>cpu_funcs.hpp\<close> reads or writes, with the widths of
  section 3 of the specification (\<open>pc\<close> and \<open>a_latch\<close> 16 bits, \<open>instruction_latch\<close>,
  \<open>d_latch\<close> and \<open>ck_half_cycle\<close> 8 bits). The pointer \<open>cpu->pins\<close> is represented
  by the Pin Set it points to. Everything else the struct holds (the register file and the
  per-instruction scratch state of the handlers) is the abstract field \<open>regs\<close>.
\<close>

record 'r cpu_t =
  pins :: pins_t
  main_bus_set :: bus_set_ptr
  vram_bus_set :: bus_set_ptr
  state :: cpu_state_t
  pc :: u16
  instruction_latch :: u8
  a_latch :: u16
  d_latch :: u8
  ck_half_cycle :: u8
  read_ongoing :: bool
  write_ongoing :: bool
  regs :: 'r

text \<open>
  Modelled from the spec: the macro \<open>RANGE(v, l, h)\<close> of \<open>macros.hpp\<close>, which is not
  among the sources. The specification writes the regions as closed intervals, so both
  bounds are inclusive; the comparison is unsigned.
\<close>

definition RANGE :: "u16 \<Rightarrow> u16 \<Rightarrow> u16 \<Rightarrow> bool" where
  "RANGE v l h = (l \<le> v \<and> v \<le> h)"

section \<open>Instruction dispatch table (\<open>cpu_table.hpp\<close>)\<close>

text \<open>
  The handler functions of \<open>cpu_instructions.hpp\<close> are not among the sources; the table
  only needs their names. A table entry is a function pointer: \<open>None\<close> is the null
  pointer, \<open>Some f\<close> points to handler \<open>f\<close>.
\<close>

datatype handler =
  nop | ld_rr_nn | ld_r_n | ld_nn_sp | ld_a_bc | ld_a_de | ld_hli_a | ld_a_hli
| ld_hld_a | ld_hl_n | ld_a_hld | ld_r_r | ld_r_hl | ld_hl_r | pop_bc | jp_nn
| push_bc | pop_de | push_de | ldh_n_a | pop_hl | ldh_c_a | push_hl | ld_nn_a
| ldh_a_n | pop_af | ldh_a_c | push_af | ld_sp_hl | ld_a_nn

type_synonym cpu_instruction_t = "handler option"

definition instruction_table :: "cpu_instruction_t list" where
  "instruction_table = [
    Some nop, Some ld_rr_nn, Some nop, Some nop, Some nop, Some nop, Some ld_r_n, Some nop,
    Some ld_nn_sp, Some nop, Some ld_a_bc, Some nop, Some nop, Some nop, Some ld_r_n, Some nop,
    Some nop, Some ld_rr_nn, Some nop, Some nop, Some nop, Some nop, Some ld_r_n, Some nop,
    Some nop, Some nop, Some ld_a_de, Some nop, Some nop, Some nop, Some ld_r_n, Some nop,
    Some nop, Some ld_rr_nn, Some ld_hli_a, Some nop, Some nop, Some nop, Some ld_r_n, Some nop,
    Some nop, Some nop, Some ld_a_hli, Some nop, Some nop, Some nop, Some ld_r_n, Some nop,
    Some nop, Some ld_rr_nn, Some ld_hld_a, Some nop, Some nop, Some nop, Some ld_hl_n, Some nop,
    Some nop, Some nop, Some ld_a_hld, Some nop, Some nop, Some nop, Some ld_r_n, Some nop,
    Some ld_r_r, Some ld_r_r, Some ld_r_r, Some ld_r_r, Some ld_r_r, Some ld_r_r, Some ld_r_hl, Some ld_r_r,
    Some ld_r_r, Some ld_r_r, Some ld_r_r, Some ld_r_r, Some ld_r_r, Some ld_r_r, Some ld_r_hl, Some ld_r_r,
    Some ld_r_r, Some ld_r_r, Some ld_r_r, Some ld_r_r, Some ld_r_r, Some ld_r_r, Some ld_r_hl, Some ld_r_r,
    Some ld_r_r, Some ld_r_r, Some ld_r_r, Some ld_r_r, Some ld_r_r, Some ld_r_r, Some ld_r_hl, Some ld_r_r,
    Some ld_r_r, Some ld_r_r, Some ld_r_r, Some ld_r_r, Some ld_r_r, Some ld_r_r, Some ld_r_hl, Some ld_r_r,
    Some ld_r_r, Some ld_r_r, Some ld_r_r, Some ld_r_r, Some ld_r_r, Some ld_r_r, Some ld_r_hl, Some ld_r_r,
    Some ld_hl_r, Some ld_hl_r, Some ld_hl_r, Some ld_hl_r, Some ld_hl_r, Some ld_hl_r, Some nop, Some ld_hl_r,
    Some ld_r_r, Some ld_r_r, Some ld_r_r, Some ld_r_r, Some ld_r_r, Some ld_r_r, Some ld_r_hl, Some ld_r_r,
    Some nop, Some nop, Some nop, Some nop, Some nop, Some nop, Some nop, Some nop,
    Some nop, Some nop, Some nop, Some nop, Some nop, Some nop, Some nop, Some nop,
    Some nop, Some nop, Some nop, Some nop, Some nop, Some nop, Some nop, Some nop,
    Some nop, Some nop, Some nop, Some nop, Some nop, Some nop, Some nop, Some nop,
    Some nop, Some nop, Some nop, Some nop, Some nop, Some nop, Some nop, Some nop,
    Some nop, Some nop, Some nop, Some nop, Some nop, Some nop, Some nop, Some nop,
    Some nop, Some nop, Some nop, Some nop, Some nop, Some nop, Some nop, Some nop,
    Some nop, Some nop, Some nop, Some nop, Some nop, Some nop, Some nop, Some nop,
    Some nop, Some pop_bc, Some nop, Some jp_nn, Some nop, Some push_bc, Some nop, Some nop,
    Some nop, Some nop, Some nop, Some nop, Some nop, Some nop, Some nop, Some nop,
    Some nop, Some pop_de, Some nop, Some nop, Some nop, Some push_de, Some nop, Some nop,
    Some nop, Some nop, Some nop, Some nop, Some nop, Some nop, Some nop, Some nop,
    Some ldh_n_a, Some pop_hl, Some ldh_c_a, Some nop, Some nop, Some push_hl, Some nop, Some nop,
    Some nop, Some nop, Some ld_nn_a, Some nop, Some nop, Some nop, Some nop, Some nop,
    Some ldh_a_n, Some pop_af, Some ldh_a_c, Some nop, Some nop, Some push_af, Some nop, Some nop,
    Some nop, Some ld_sp_hl, Some ld_a_nn, Some nop, Some nop, Some nop, Some nop, Some nop
  ]"

section \<open>Bus timing and the fetch/execute driver (\<open>cpu_funcs.hpp\<close>)\<close>

text \<open>
  \<open>cpu_init\<close>: \<open>memset\<close> clears the whole struct, whatever it held (the first argument is
  the old content and is not used); then the pointers are set, the Pin Set owned by the
  enclosing \<open>lr35902_t\<close> (second argument) is put into the idle bus state, and the state
  becomes \<open>ST_FETCH\<close>. The pins \<open>d\<close> and \<open>phi\<close> are not written.
\<close>

definition cpu_init :: "'r::zero cpu_t \<Rightarrow> pins_t \<Rightarrow> 'r cpu_t" where
  "cpu_init cpu lr35902_pins =
     \<lparr> pins = lr35902_pins\<lparr> rd := True, wr := True, a := 0x8000, cs := True \<rparr>,
       main_bus_set = lr35902_main_bus_set,
       vram_bus_set = lr35902_vram_bus_set,
       state = ST_FETCH,
       pc = 0,
       instruction_latch = 0,
       a_latch = 0,
       d_latch = 0,
       ck_half_cycle = 0,
       read_ongoing = False,
       write_ongoing = False,
       regs = 0 \<rparr>"

definition cpu_init_read :: "'r cpu_t \<Rightarrow> u16 \<Rightarrow> 'r cpu_t" where
  "cpu_init_read cpu addr = cpu\<lparr> read_ongoing := True, a_latch := addr \<rparr>"

definition cpu_init_write :: "'r cpu_t \<Rightarrow> u16 \<Rightarrow> u8 \<Rightarrow> 'r cpu_t" where
  "cpu_init_write cpu addr data =
     cpu\<lparr> write_ongoing := True, a_latch := addr, d_latch := data \<rparr>"

definition cpu_update_clocks :: "'r cpu_t \<Rightarrow> 'r cpu_t" where
  "cpu_update_clocks cpu =
     (let hc = (ck_half_cycle cpu + 1) mod 8
      in cpu\<lparr> ck_half_cycle := hc,
              pins := (pins cpu)\<lparr> phi := \<not> ((drop_bit 2 hc) AND 1 \<noteq> 0) \<rparr> \<rparr>)"

text \<open>
  \<open>cpu_handle_write\<close>: the \<open>switch\<close> on the half-cycle, one branch per \<open>case\<close>. The
  result pair is the returned flag and the core after the call. (The locals \<open>rom\<close> and
  \<open>ram\<close> of the source are computed and never read; the branches test the ranges again.)
\<close>

definition cpu_handle_write :: "'r cpu_t \<Rightarrow> bool \<times> 'r cpu_t" where
  "cpu_handle_write cpu =
     (let p = pins cpu; hc = ck_half_cycle cpu in
      if hc = 0 then
        (True, cpu\<lparr> pins := p\<lparr> wr := True, rd := False, a := a p OR 0x8000, cs := True \<rparr> \<rparr>)
      else if hc = 1 then
        (let p1 = (if RANGE (a_latch cpu) 0x0000 0x7fff \<or> RANGE (a_latch cpu) 0xa000 0xfdff
                   then p\<lparr> rd := True \<rparr> else p);
             p2 = p1\<lparr> a := a p1 AND 0x8000 \<rparr>;
             p3 = p2\<lparr> a := a p2 OR (a_latch cpu AND 0x7fff) \<rparr>
         in (True, cpu\<lparr> pins := p3 \<rparr>))
      else if hc = 2 then
        (if RANGE (a_latch cpu) 0x0000 0x7fff then
           (True, cpu\<lparr> pins := p\<lparr> a := a p AND 0x7fff \<rparr> \<rparr>)
         else if RANGE (a_latch cpu) 0xa000 0xfdff then
           (True, cpu\<lparr> pins := p\<lparr> cs := False \<rparr> \<rparr>)
         else (True, cpu))
      else if hc = 3 then
        (if RANGE (a_latch cpu) 0x0000 0x7fff \<or> RANGE (a_latch cpu) 0xa000 0xfdff then
           (True, cpu\<lparr> pins := p\<lparr> wr := False, d := d_latch cpu \<rparr> \<rparr>)
         else (True, cpu))
      else if hc = 6 then
        (True, cpu\<lparr> pins := p\<lparr> wr := True \<rparr> \<rparr>)
      else if hc = 7 then
        (False, cpu\<lparr> write_ongoing := False \<rparr>)
      else (True, cpu))"

text \<open>
  \<open>cpu_handle_read\<close>: the destination \<open>uint8_t* dest\<close> is passed as the byte it holds
  before the call, and the byte it holds after the call is the third component of the
  result. The function itself reads and writes only the pins, the half-cycle and
  \<open>read_ongoing\<close>, so a destination inside the core (such as \<open>instruction_latch\<close>) is
  written back by the caller.
\<close>

definition cpu_handle_read :: "'r cpu_t \<Rightarrow> u8 \<Rightarrow> bool \<times> 'r cpu_t \<times> u8" where
  "cpu_handle_read cpu dest =
     (let p = pins cpu; hc = ck_half_cycle cpu in
      if hc = 0 then
        (True, cpu\<lparr> pins := p\<lparr> wr := True, rd := False, a := a p OR 0x8000, cs := True \<rparr> \<rparr>,
         dest)
      else if hc = 1 then
        (let p1 = p\<lparr> a := a p AND 0x8000 \<rparr>;
             p2 = p1\<lparr> a := a p1 OR (a_latch cpu AND 0x7fff) \<rparr>
         in (True, cpu\<lparr> pins := p2 \<rparr>, dest))
      else if hc = 2 then
        (if RANGE (a_latch cpu) 0x0000 0x7fff then
           (True, cpu\<lparr> pins := p\<lparr> a := a p AND 0x7fff \<rparr> \<rparr>, dest)
         else if RANGE (a_latch cpu) 0xa000 0xfdff then
           (True, cpu\<lparr> pins := p\<lparr> cs := False \<rparr> \<rparr>, dest)
         else (True, cpu, dest))
      else if hc = 6 then
        (True, cpu, d p)
      else if hc = 7 then
        (False, cpu\<lparr> read_ongoing := False \<rparr>, dest)
      else (True, cpu, dest))"

text \<open>
  The handlers are code outside the sources, so the driver takes their meaning as a
  parameter: \<open>exec f cpu\<close> is the status handler \<open>f\<close> returns and the core it leaves.
  Calling through a null table entry has no defined behaviour: the tick then yields
  \<open>None\<close>. The table index is an 8-bit value.
\<close>

type_synonym 'r exec_t = "handler \<Rightarrow> 'r cpu_t \<Rightarrow> instruction_state_t \<times> 'r cpu_t"

text \<open>
  The opcode fetch that both \<open>case ST_FETCH\<close> and the prefetch of \<open>case ST_EXECUTE\<close>
  spell out: \<open>cpu_init_read(cpu, cpu->pc++)\<close> when no read is in flight, then one step of
  the read with \<open>&cpu->instruction_latch\<close> as destination, and \<open>state = ST_EXECUTE\<close>
  when the step returns false.
\<close>

definition cpu_fetch :: "'r cpu_t \<Rightarrow> 'r cpu_t" where
  "cpu_fetch cpu =
     (let c1 = (if \<not> read_ongoing cpu
                then cpu_init_read (cpu\<lparr> pc := pc cpu + 1 \<rparr>) (pc cpu) else cpu)
      in case cpu_handle_read c1 (instruction_latch c1) of
           (continues, c2, byte) \<Rightarrow>
             (let c3 = c2\<lparr> instruction_latch := byte \<rparr>
              in if \<not> continues then c3\<lparr> state := ST_EXECUTE \<rparr> else c3))"

definition cpu_clock :: "'r exec_t \<Rightarrow> 'r cpu_t \<Rightarrow> 'r cpu_t option" where
  "cpu_clock exec cpu =
     (case state cpu of
        ST_FETCH \<Rightarrow> Some (cpu_update_clocks (cpu_fetch cpu))
      | ST_EXECUTE \<Rightarrow>
          (case instruction_table ! unat (instruction_latch cpu) of
             None \<Rightarrow> None
           | Some f \<Rightarrow>
               (case exec f cpu of
                  (st, c1) \<Rightarrow>
                    if st = IS_LAST_CYCLE then Some (cpu_update_clocks (cpu_fetch c1))
                    else Some (cpu_update_clocks c1)))
      | ST_TEST \<Rightarrow> Some (cpu_update_clocks cpu))"

section \<open>Driving the core\<close>

text \<open>
  A bus transaction is stepped once per tick and the clock divider advances after the
  step, as \<open>cpu_clock\<close> does. \<open>drive_read n\<close> and \<open>drive_write n\<close> run \<open>n\<close> such
  ticks and list, for each tick, what the step returned and the core right after the step
  (before the clock advances).
\<close>

fun drive_read :: "nat \<Rightarrow> 'r cpu_t \<Rightarrow> u8 \<Rightarrow> (bool \<times> 'r cpu_t \<times> u8) list" where
  "drive_read 0 cpu dest = []"
| "drive_read (Suc n) cpu dest =
     (case cpu_handle_read cpu dest of
        (continues, c1, byte) \<Rightarrow>
          (continues, c1, byte) # drive_read n (cpu_update_clocks c1) byte)"

fun drive_write :: "nat \<Rightarrow> 'r cpu_t \<Rightarrow> (bool \<times> 'r cpu_t) list" where
  "drive_write 0 cpu = []"
| "drive_write (Suc n) cpu =
     (case cpu_handle_write cpu of
        (continues, c1) \<Rightarrow> (continues, c1) # drive_write n (cpu_update_clocks c1))"

text \<open>\<open>n\<close> calls of the tick entry point, one after the other.\<close>

fun cpu_clocks :: "'r exec_t \<Rightarrow> nat \<Rightarrow> 'r cpu_t \<Rightarrow> 'r cpu_t option" where
  "cpu_clocks exec 0 cpu = Some cpu"
| "cpu_clocks exec (Suc n) cpu =
     (case cpu_clock exec cpu of None \<Rightarrow> None | Some c1 \<Rightarrow> cpu_clocks exec n c1)"

text \<open>The two select lines of a core: the level of A15 and the level of chip-select.\<close>

definition select_lines :: "'r cpu_t \<Rightarrow> bool \<times> bool" where
  "select_lines cpu = (bit (a (pins cpu)) 15, cs (pins cpu))"

subsection \<open>Concrete cores for the examples\<close>

text \<open>
  A Pin Set with every line low, an uninitialised core holding arbitrary values, the core
  right after reset, and two handler semantics under which every handler leaves the core
  alone: one reports the last cycle on every tick, the other never does.
\<close>

definition floating_pins :: pins_t where
  "floating_pins = \<lparr> a = 0, d = 0, rd = False, wr = False, cs = False, phi = False \<rparr>"

definition blank_cpu :: "nat cpu_t" where
  "blank_cpu = \<lparr> pins = floating_pins, main_bus_set = null_bus_set,
       vram_bus_set = null_bus_set, state = ST_TEST, pc = 0x1234, instruction_latch = 0x56,
       a_latch = 0x789a, d_latch = 0xbc, ck_half_cycle = 5, read_ongoing = True,
       write_ongoing = True, regs = 7 \<rparr>"

definition reset_cpu :: "nat cpu_t" where
  "reset_cpu = cpu_init blank_cpu floating_pins"

definition every_cycle_last :: "nat exec_t" where
  "every_cycle_last f cpu = (IS_LAST_CYCLE, cpu)"

definition never_last :: "nat exec_t" where
  "never_last f cpu = (IS_EXECUTING, cpu)"

section \<open>Auxiliary facts\<close>

lemmas core_defs = cpu_init_def cpu_init_read_def cpu_init_write_def cpu_update_clocks_def
  cpu_handle_write_def cpu_handle_read_def cpu_fetch_def cpu_clock_def RANGE_def

lemmas example_defs = floating_pins_def blank_cpu_def reset_cpu_def every_cycle_last_def
  never_last_def

lemma drive_read_numeral:
  "drive_read (numeral k) cpu dest =
     (case cpu_handle_read cpu dest of
        (continues, c1, byte) \<Rightarrow>
          (continues, c1, byte) # drive_read (pred_numeral k) (cpu_update_clocks c1) byte)"
  by (simp add: numeral_eq_Suc)

lemma drive_write_numeral:
  "drive_write (numeral k) cpu =
     (case cpu_handle_write cpu of
        (continues, c1) \<Rightarrow>
          (continues, c1) # drive_write (pred_numeral k) (cpu_update_clocks c1))"
  by (simp add: numeral_eq_Suc)

lemma instruction_table_length: "length instruction_table = 256"
  by (simp add: instruction_table_def)

lemma instruction_table_no_null: "None \<notin> set instruction_table"
  by (simp add: instruction_table_def)

lemma instruction_table_lookup: "\<exists>f. instruction_table ! unat (opcode :: u8) = Some f"
proof -
  have "unat opcode < 2 ^ LENGTH(8)" by (rule unsigned_less)
  then have "unat opcode < length instruction_table"
    by (simp add: instruction_table_length)
  then have "instruction_table ! unat opcode \<in> set instruction_table"
    by (rule nth_mem)
  with instruction_table_no_null have "instruction_table ! unat opcode \<noteq> None"
    by metis
  then show ?thesis by auto
qed

lemma half_cycle_step: "unat (((h::u8) + 1) mod 8) = (unat h + 1) mod 8"
  by (simp add: unat_mod_distrib unat_word_ariths mod_mod_cancel)

lemma half_cycle_7: "((h::u8) = 7) = (unat h = 7)"
  by (simp add: word_unat_eq_iff)

lemma phi_bit: "((drop_bit 2 (h::u8)) AND 1 = 0) = (\<not> bit h 2)"
  by (simp add: bit_iff_and_drop_bit_eq_1 and_one_eq)

lemma bit2_high_half:
  assumes "unat (h::u8) < 8"
  shows "bit h 2 = (unat h \<in> {4, 5, 6, 7})"
proof -
  have "bit h 2 = bit (unat h) 2"
    by (simp add: bit_unsigned_iff)
  also have "\<dots> = odd (unat h div 4)"
    by (simp add: bit_iff_odd)
  also from assms have "\<dots> = (unat h \<in> {4, 5, 6, 7})"
    by (auto elim!: oddE)
  finally show ?thesis .
qed

lemma region_exclusive:
  "RANGE v 0xa000 0xfdff \<Longrightarrow> \<not> RANGE v 0x0000 0x7fff"
  "RANGE v 0xfe00 0xffff \<Longrightarrow> \<not> RANGE v 0x0000 0x7fff"
  "RANGE v 0xfe00 0xffff \<Longrightarrow> \<not> RANGE v 0xa000 0xfdff"
  by (simp_all add: RANGE_def word_le_nat_alt)

lemma update_clocks_fields:
  "ck_half_cycle (cpu_update_clocks c) = (ck_half_cycle c + 1) mod 8"
  "pins (cpu_update_clocks c) = (pins c)\<lparr> phi := \<not> bit ((ck_half_cycle c + 1) mod 8) 2 \<rparr>"
  "pc (cpu_update_clocks c) = pc c"
  "a_latch (cpu_update_clocks c) = a_latch c"
  "d_latch (cpu_update_clocks c) = d_latch c"
  "instruction_latch (cpu_update_clocks c) = instruction_latch c"
  "read_ongoing (cpu_update_clocks c) = read_ongoing c"
  "write_ongoing (cpu_update_clocks c) = write_ongoing c"
  "state (cpu_update_clocks c) = state c"
  by (simp_all add: cpu_update_clocks_def Let_def phi_bit)

lemma handle_read_returns: "fst (cpu_handle_read cpu dest) = (ck_half_cycle cpu \<noteq> 7)"
  by (simp add: cpu_handle_read_def Let_def)

lemma handle_read_flag:
  "read_ongoing (fst (snd (cpu_handle_read cpu dest))) =
     (read_ongoing cpu \<and> ck_half_cycle cpu \<noteq> 7)"
  by (simp add: cpu_handle_read_def Let_def)

lemma handle_read_half_cycle:
  "ck_half_cycle (fst (snd (cpu_handle_read cpu dest))) = ck_half_cycle cpu"
  by (simp add: cpu_handle_read_def Let_def)

lemma handle_write_returns: "fst (cpu_handle_write cpu) = (ck_half_cycle cpu \<noteq> 7)"
  by (simp add: cpu_handle_write_def Let_def)

lemma handle_write_flag:
  "write_ongoing (snd (cpu_handle_write cpu)) =
     (write_ongoing cpu \<and> ck_half_cycle cpu \<noteq> 7)"
  by (simp add: cpu_handle_write_def Let_def)

lemma handle_write_half_cycle:
  "ck_half_cycle (snd (cpu_handle_write cpu)) = ck_half_cycle cpu"
  by (simp add: cpu_handle_write_def Let_def)

lemma fetch_fields:
  "pc (cpu_fetch c) = (if read_ongoing c then pc c else pc c + 1)"
  "a_latch (cpu_fetch c) = (if read_ongoing c then a_latch c else pc c)"
  "read_ongoing (cpu_fetch c) = (ck_half_cycle c \<noteq> 7)"
  "instruction_latch (cpu_fetch c) =
     (if ck_half_cycle c = 6 then d (pins c) else instruction_latch c)"
  "state (cpu_fetch c) = (if ck_half_cycle c = 7 then ST_EXECUTE else state c)"
  "ck_half_cycle (cpu_fetch c) = ck_half_cycle c"
  by (simp_all add: cpu_fetch_def cpu_handle_read_def cpu_init_read_def Let_def)

lemma fetch_core:
  "cpu_fetch c =
     c\<lparr> pc := (if read_ongoing c then pc c else pc c + 1),
        a_latch := (if read_ongoing c then a_latch c else pc c),
        read_ongoing := (ck_half_cycle c \<noteq> 7),
        instruction_latch := (if ck_half_cycle c = 6 then d (pins c) else instruction_latch c),
        state := (if ck_half_cycle c = 7 then ST_EXECUTE else state c),
        pins := pins (fst (snd (cpu_handle_read
                  (c\<lparr> a_latch := (if read_ongoing c then a_latch c else pc c) \<rparr>) dest))) \<rparr>"
  by (simp add: cpu_fetch_def cpu_handle_read_def cpu_init_read_def Let_def)

section \<open>Reset\<close>

text \<open>
  C7. Right after \<open>cpu_init\<close>, whatever the core and the Pin Set held before: the program
  counter, the three latches and the half-cycle are zero, both in-flight flags are false,
  the rest of the struct is zero, and the top-level state is \<open>ST_FETCH\<close>; on the Pin Set
  both strobes are inactive (true), chip-select is idle-high, and the address pins hold
  \<open>0x8000\<close>, so that A15 (bit 15) is high.
\<close>

theorem cpu_init_idle:
  "pc (cpu_init cpu lp) = 0 \<and>
   instruction_latch (cpu_init cpu lp) = 0 \<and>
   a_latch (cpu_init cpu lp) = 0 \<and>
   d_latch (cpu_init cpu lp) = 0 \<and>
   ck_half_cycle (cpu_init cpu lp) = 0 \<and>
   read_ongoing (cpu_init cpu lp) = False \<and>
   write_ongoing (cpu_init cpu lp) = False \<and>
   regs (cpu_init cpu lp) = 0 \<and>
   state (cpu_init cpu lp) = ST_FETCH \<and>
   rd (pins (cpu_init cpu lp)) = True \<and>
   wr (pins (cpu_init cpu lp)) = True \<and>
   cs (pins (cpu_init cpu lp)) = True \<and>
   a (pins (cpu_init cpu lp)) = 0x8000 \<and>
   bit (a (pins (cpu_init cpu lp))) 15"
  by (simp add: cpu_init_def)

section \<open>Beginning a transaction\<close>

text \<open>
  C10. \<open>cpu_init_read\<close> changes only \<open>read_ongoing\<close> (set) and \<open>a_latch\<close> (the address):
  putting the old values of these two fields back gives the core as it was, and the Pin Set
  is untouched. \<open>cpu_init_write\<close> changes only \<open>write_ongoing\<close> (set), \<open>a_latch\<close> and
  \<open>d_latch\<close> in the same sense. No pin moves until a step is made.
\<close>

theorem cpu_init_transfer_frame:
  "(cpu_init_read cpu addr)\<lparr> read_ongoing := read_ongoing cpu, a_latch := a_latch cpu \<rparr> = cpu \<and>
   read_ongoing (cpu_init_read cpu addr) = True \<and>
   a_latch (cpu_init_read cpu addr) = addr \<and>
   pins (cpu_init_read cpu addr) = pins cpu \<and>
   (cpu_init_write cpu addr data)\<lparr> write_ongoing := write_ongoing cpu,
       a_latch := a_latch cpu, d_latch := d_latch cpu \<rparr> = cpu \<and>
   write_ongoing (cpu_init_write cpu addr data) = True \<and>
   a_latch (cpu_init_write cpu addr data) = addr \<and>
   d_latch (cpu_init_write cpu addr data) = data \<and>
   pins (cpu_init_write cpu addr data) = pins cpu"
  by (simp add: cpu_init_read_def cpu_init_write_def)

section \<open>Dispatch table\<close>

text \<open>
  C9. The dispatch table has exactly 256 entries, so every opcode byte indexes inside it,
  and the entry found there is never the null pointer: it is some handler.
\<close>

theorem instruction_table_complete:
  "length instruction_table = 256 \<and>
   unat (opcode :: u8) < length instruction_table \<and>
   instruction_table ! unat opcode \<noteq> None \<and>
   (\<exists>f. instruction_table ! unat opcode = Some f)"
proof -
  have "unat opcode < 2 ^ LENGTH(8)" by (rule unsigned_less)
  then have "unat opcode < length instruction_table"
    by (simp add: instruction_table_length)
  moreover obtain f where "instruction_table ! unat opcode = Some f"
    using instruction_table_lookup by blast
  ultimately show ?thesis
    by (simp add: instruction_table_length)
qed

section \<open>Strobes at half-cycle 1\<close>

text \<open>
  C1 as stated does not hold. A read of ROM address \<open>0x0100\<close> begun after reset: the
  step at half-cycle 0 pulls \<open>rd\<close> low and the step at half-cycle 1 leaves it low, where
  the claim has it back at true. A write to the same address: the step at half-cycle 1
  raises \<open>rd\<close> from false to true, where the claim has no strobe change.
\<close>

theorem half_cycle_1_strobes_counterexample:
  "RANGE 0x0100 0x0000 0x7fff \<and>
   map (rd \<circ> pins \<circ> fst \<circ> snd) (drive_read 2 (cpu_init_read reset_cpu 0x0100) 0)
     = [False, False] \<and>
   map (rd \<circ> pins \<circ> snd) (drive_write 2 (cpu_init_write reset_cpu 0x0100 0x42))
     = [False, True]"
  by (simp add: drive_read_numeral drive_write_numeral core_defs example_defs)

text \<open>
  C1, amended. At half-cycle 1 a read step changes neither strobe, whatever the address.
  A write step never changes \<open>wr\<close>; it sets \<open>rd\<close> inactive (true) when the target lies in
  the ROM region \<open>[0x0000,0x7FFF]\<close> or the RAM region \<open>[0xA000,0xFDFF]\<close>, and leaves
  \<open>rd\<close> as it is for every other target, the HRAM/IO region \<open>[0xFE00,0xFFFF]\<close> included.
\<close>

theorem half_cycle_1_strobes:
  assumes "ck_half_cycle cpu = 1"
  shows "rd (pins (fst (snd (cpu_handle_read cpu dest)))) = rd (pins cpu) \<and>
         wr (pins (fst (snd (cpu_handle_read cpu dest)))) = wr (pins cpu) \<and>
         wr (pins (snd (cpu_handle_write cpu))) = wr (pins cpu) \<and>
         rd (pins (snd (cpu_handle_write cpu))) =
           (if RANGE (a_latch cpu) 0x0000 0x7fff \<or> RANGE (a_latch cpu) 0xa000 0xfdff
            then True else rd (pins cpu)) \<and>
         (RANGE (a_latch cpu) 0xfe00 0xffff \<longrightarrow>
            rd (pins (snd (cpu_handle_write cpu))) = rd (pins cpu))"
  using assms region_exclusive(2,3) [of "a_latch cpu"]
  by (simp add: cpu_handle_write_def cpu_handle_read_def Let_def)

theorem half_cycle_1_strobes_witness:
  "ck_half_cycle (reset_cpu\<lparr> ck_half_cycle := 1, a_latch := 0x0100,
       pins := (pins reset_cpu)\<lparr> rd := False \<rparr> \<rparr>) = 1 \<and>
   rd (pins (fst (snd (cpu_handle_read (reset_cpu\<lparr> ck_half_cycle := 1, a_latch := 0x0100,
       pins := (pins reset_cpu)\<lparr> rd := False \<rparr> \<rparr>) 0)))) = False \<and>
   rd (pins (snd (cpu_handle_write (reset_cpu\<lparr> ck_half_cycle := 1, a_latch := 0x0100,
       pins := (pins reset_cpu)\<lparr> rd := False \<rparr> \<rparr>)))) = True \<and>
   RANGE 0xff80 0xfe00 0xffff \<and>
   rd (pins (snd (cpu_handle_write (reset_cpu\<lparr> ck_half_cycle := 1, a_latch := 0xff80,
       pins := (pins reset_cpu)\<lparr> rd := False \<rparr> \<rparr>)))) = False"
  using half_cycle_1_strobes [of "reset_cpu\<lparr> ck_half_cycle := 1, a_latch := 0x0100,
       pins := (pins reset_cpu)\<lparr> rd := False \<rparr> \<rparr>" 0]
    half_cycle_1_strobes [of "reset_cpu\<lparr> ck_half_cycle := 1, a_latch := 0xff80,
       pins := (pins reset_cpu)\<lparr> rd := False \<rparr> \<rparr>" 0]
  by (simp add: example_defs cpu_init_def RANGE_def)

section \<open>The write strobe at half-cycle 3\<close>

text \<open>
  C2 as stated does not hold. A write of \<open>0x42\<close> to the HRAM address \<open>0xFF80\<close> begun
  after reset: after each of the steps at half-cycles 0 to 3 the write strobe is still
  inactive (true) and the data pins still hold 0, not the data latch.
\<close>

theorem write_half_cycle_3_counterexample:
  "map (\<lambda>(r, c). (wr (pins c), d (pins c), d_latch c))
     (drive_write 4 (cpu_init_write reset_cpu 0xff80 0x42))
   = [(True, 0, 0x42), (True, 0, 0x42), (True, 0, 0x42), (True, 0, 0x42)]"
  by (simp add: drive_write_numeral core_defs example_defs)

text \<open>
  C2, amended. For a write whose target lies in the ROM region \<open>[0x0000,0x7FFF]\<close> or the
  RAM region \<open>[0xA000,0xFDFF]\<close>, the step at half-cycle 3 pulls \<open>wr\<close> low (false) and
  places \<open>d_latch\<close> on the data pins, changing nothing else. For every other target, the
  HRAM/IO region included, the step at half-cycle 3 changes nothing at all. In both cases
  the step reports that the transaction continues.
\<close>

theorem write_half_cycle_3:
  assumes "ck_half_cycle cpu = 3"
  shows "cpu_handle_write cpu =
          (True,
           if RANGE (a_latch cpu) 0x0000 0x7fff \<or> RANGE (a_latch cpu) 0xa000 0xfdff
           then cpu\<lparr> pins := (pins cpu)\<lparr> wr := False, d := d_latch cpu \<rparr> \<rparr>
           else cpu) \<and>
         (RANGE (a_latch cpu) 0xfe00 0xffff \<longrightarrow> cpu_handle_write cpu = (True, cpu))"
  using assms region_exclusive(2,3) [of "a_latch cpu"]
  by (simp add: cpu_handle_write_def)

theorem write_half_cycle_3_witness:
  "ck_half_cycle (cpu_init_write (reset_cpu\<lparr> ck_half_cycle := 3 \<rparr>) 0xc000 0x42) = 3 \<and>
   RANGE 0xc000 0xa000 0xfdff \<and>
   wr (pins (snd (cpu_handle_write
     (cpu_init_write (reset_cpu\<lparr> ck_half_cycle := 3 \<rparr>) 0xc000 0x42)))) = False \<and>
   d (pins (snd (cpu_handle_write
     (cpu_init_write (reset_cpu\<lparr> ck_half_cycle := 3 \<rparr>) 0xc000 0x42)))) = 0x42 \<and>
   RANGE 0xff80 0xfe00 0xffff \<and>
   cpu_handle_write (cpu_init_write (reset_cpu\<lparr> ck_half_cycle := 3 \<rparr>) 0xff80 0x42) =
     (True, cpu_init_write (reset_cpu\<lparr> ck_half_cycle := 3 \<rparr>) 0xff80 0x42)"
  using write_half_cycle_3 [of "cpu_init_write (reset_cpu\<lparr> ck_half_cycle := 3 \<rparr>) 0xc000 0x42"]
    write_half_cycle_3 [of "cpu_init_write (reset_cpu\<lparr> ck_half_cycle := 3 \<rparr>) 0xff80 0x42"]
  by (simp add: example_defs cpu_init_def cpu_init_write_def RANGE_def)

section \<open>Ticks in the test state\<close>

text \<open>
  C8 as stated does not hold for the phase pin. A core in \<open>ST_TEST\<close> at half-cycle 3
  with \<open>phi\<close> high: one tick later \<open>phi\<close> is low, because the clock divider runs at the
  end of every tick.
\<close>

theorem test_tick_counterexample:
  "state (reset_cpu\<lparr> state := ST_TEST, ck_half_cycle := 3,
            pins := (pins reset_cpu)\<lparr> phi := True \<rparr> \<rparr>) = ST_TEST \<and>
   phi (pins (reset_cpu\<lparr> state := ST_TEST, ck_half_cycle := 3,
            pins := (pins reset_cpu)\<lparr> phi := True \<rparr> \<rparr>)) = True \<and>
   map_option (phi \<circ> pins)
     (cpu_clock every_cycle_last
        (reset_cpu\<lparr> state := ST_TEST, ck_half_cycle := 3,
            pins := (pins reset_cpu)\<lparr> phi := True \<rparr> \<rparr>))
     = Some False"
  by (simp add: core_defs example_defs)

text \<open>
  C8, amended. When the state is \<open>ST_TEST\<close>, a tick calls no handler and steps no
  transaction: it changes no Pin Set field other than the phase pin, and no field of the
  core other than the half-cycle. The half-cycle advances modulo 8 and \<open>phi\<close> becomes the
  negation of bit 2 of the new half-cycle; the latches, the program counter, the in-flight
  flags and the state are as before.
\<close>

theorem test_tick_frame:
  assumes "state cpu = ST_TEST"
  shows "cpu_clock exec cpu =
           Some (cpu\<lparr> ck_half_cycle := (ck_half_cycle cpu + 1) mod 8,
                      pins := (pins cpu)\<lparr> phi := \<not> bit ((ck_half_cycle cpu + 1) mod 8) 2 \<rparr> \<rparr>)"
  using assms by (simp add: cpu_clock_def cpu_update_clocks_def Let_def phi_bit)

theorem test_tick_frame_witness:
  "state (reset_cpu\<lparr> state := ST_TEST, ck_half_cycle := 3 \<rparr>) = ST_TEST \<and>
   cpu_clock every_cycle_last (reset_cpu\<lparr> state := ST_TEST, ck_half_cycle := 3 \<rparr>) =
     Some (reset_cpu\<lparr> state := ST_TEST, ck_half_cycle := 4 \<rparr>)"
  using test_tick_frame [of "reset_cpu\<lparr> state := ST_TEST, ck_half_cycle := 3 \<rparr>" every_cycle_last]
  by (simp add: example_defs cpu_init_def bit_simps)

section \<open>Ticks in the execute state\<close>

text \<open>
  C3 as stated does not hold: the byte is not stored when the prefetch completes. With a
  read in flight and \<open>0x42\<close> on the data pins, the tick at half-cycle 6 already stores
  \<open>0x42\<close> into \<open>instruction_latch\<close> while the read is still in flight; the tick at
  half-cycle 7 completes the read and sets \<open>ST_EXECUTE\<close>, and leaves
  \<open>instruction_latch\<close> (here 0) as it is, although the data pins hold \<open>0x42\<close>.
\<close>

theorem execute_tick_counterexample:
  "map_option (\<lambda>c. (read_ongoing c, instruction_latch c))
     (cpu_clock every_cycle_last
        (reset_cpu\<lparr> state := ST_EXECUTE, ck_half_cycle := 6, read_ongoing := True,
                    pins := (pins reset_cpu)\<lparr> d := 0x42 \<rparr> \<rparr>)) = Some (True, 0x42) \<and>
   map_option (\<lambda>c. (read_ongoing c, instruction_latch c, state c))
     (cpu_clock every_cycle_last
        (reset_cpu\<lparr> state := ST_EXECUTE, ck_half_cycle := 7, read_ongoing := True,
                    pins := (pins reset_cpu)\<lparr> d := 0x42 \<rparr> \<rparr>)) = Some (False, 0, ST_EXECUTE)"
  by (simp add: core_defs example_defs instruction_table_def)

text \<open>
  C3, amended. In \<open>ST_EXECUTE\<close> the table entry for \<open>instruction_latch\<close> is a handler
  and the tick runs it exactly once, giving a status and a core \<open>c1\<close>; the whole core
  after the tick is determined by that one result. If the status is not the last cycle,
  the tick is \<open>c1\<close> with the clock advanced: no fetch is issued. If it is the last cycle,
  the tick is \<open>c1\<close> with the following changes and then the clock advanced: when no read
  is in flight in \<open>c1\<close> a read is begun at the program counter, which is incremented; the
  read is stepped once, so the pins are those the read step leaves; the step at half-cycle
  6 stores the byte on the data pins into \<open>instruction_latch\<close>, one tick before the read
  completes; the step at half-cycle 7 completes the read, clears the in-flight flag and
  sets the state to \<open>ST_EXECUTE\<close>, without writing \<open>instruction_latch\<close>. Everything
  else is as the handler left it: the registers, \<open>d_latch\<close>, \<open>write_ongoing\<close> and the
  two bus references are those of \<open>c1\<close>, the half-cycle is that of \<open>c1\<close> advanced by one
  modulo 8, and the phase pin is the negation of bit 2 of the new half-cycle.
\<close>

theorem execute_tick:
  assumes "state cpu = ST_EXECUTE"
  shows "\<exists>f st c1. instruction_table ! unat (instruction_latch cpu) = Some f \<and>
     exec f cpu = (st, c1) \<and>
     (st \<noteq> IS_LAST_CYCLE \<longrightarrow> cpu_clock exec cpu = Some (cpu_update_clocks c1)) \<and>
     (st = IS_LAST_CYCLE \<longrightarrow>
        (\<exists>c2. cpu_clock exec cpu = Some c2 \<and>
           c2 = cpu_update_clocks
             (c1\<lparr> pc := (if read_ongoing c1 then pc c1 else pc c1 + 1),
                  a_latch := (if read_ongoing c1 then a_latch c1 else pc c1),
                  read_ongoing := (ck_half_cycle c1 \<noteq> 7),
                  instruction_latch :=
                    (if ck_half_cycle c1 = 6 then d (pins c1) else instruction_latch c1),
                  state := (if ck_half_cycle c1 = 7 then ST_EXECUTE else state c1),
                  pins := pins (fst (snd (cpu_handle_read
                     (c1\<lparr> a_latch := (if read_ongoing c1 then a_latch c1 else pc c1) \<rparr>)
                     dest))) \<rparr>) \<and>
           regs c2 = regs c1 \<and>
           d_latch c2 = d_latch c1 \<and>
           write_ongoing c2 = write_ongoing c1 \<and>
           main_bus_set c2 = main_bus_set c1 \<and>
           vram_bus_set c2 = vram_bus_set c1 \<and>
           ck_half_cycle c2 = (ck_half_cycle c1 + 1) mod 8 \<and>
           phi (pins c2) = (\<not> bit (ck_half_cycle c2) 2)))"
proof -
  obtain f where f: "instruction_table ! unat (instruction_latch cpu) = Some f"
    using instruction_table_lookup by blast
  obtain st c1 where e: "exec f cpu = (st, c1)" by (cases "exec f cpu") auto
  define c2 where "c2 = cpu_update_clocks
             (c1\<lparr> pc := (if read_ongoing c1 then pc c1 else pc c1 + 1),
                  a_latch := (if read_ongoing c1 then a_latch c1 else pc c1),
                  read_ongoing := (ck_half_cycle c1 \<noteq> 7),
                  instruction_latch :=
                    (if ck_half_cycle c1 = 6 then d (pins c1) else instruction_latch c1),
                  state := (if ck_half_cycle c1 = 7 then ST_EXECUTE else state c1),
                  pins := pins (fst (snd (cpu_handle_read
                     (c1\<lparr> a_latch := (if read_ongoing c1 then a_latch c1 else pc c1) \<rparr>)
                     dest))) \<rparr>)"
  from assms f e have more:
    "st \<noteq> IS_LAST_CYCLE \<longrightarrow> cpu_clock exec cpu = Some (cpu_update_clocks c1)"
    by (simp add: cpu_clock_def)
  from assms f e have
    "st = IS_LAST_CYCLE \<longrightarrow> cpu_clock exec cpu = Some (cpu_update_clocks (cpu_fetch c1))"
    by (simp add: cpu_clock_def)
  then have last: "st = IS_LAST_CYCLE \<longrightarrow> cpu_clock exec cpu = Some c2"
    unfolding c2_def using fetch_core [of c1 dest] by simp
  have frame: "regs c2 = regs c1" "d_latch c2 = d_latch c1"
      "write_ongoing c2 = write_ongoing c1" "main_bus_set c2 = main_bus_set c1"
      "vram_bus_set c2 = vram_bus_set c1"
      "ck_half_cycle c2 = (ck_half_cycle c1 + 1) mod 8"
      "phi (pins c2) = (\<not> bit (ck_half_cycle c2) 2)"
    by (simp_all add: c2_def cpu_update_clocks_def Let_def phi_bit)
  from f e more last frame c2_def show ?thesis by blast
qed

theorem execute_tick_witness:
  "state (reset_cpu\<lparr> state := ST_EXECUTE, ck_half_cycle := 6,
       pins := (pins reset_cpu)\<lparr> d := 0x42 \<rparr> \<rparr>) = ST_EXECUTE \<and>
   cpu_clock every_cycle_last
        (reset_cpu\<lparr> state := ST_EXECUTE, ck_half_cycle := 6,
           pins := (pins reset_cpu)\<lparr> d := 0x42 \<rparr> \<rparr>)
     = Some (reset_cpu\<lparr> state := ST_EXECUTE, ck_half_cycle := 7, pc := 1,
           read_ongoing := True, instruction_latch := 0x42,
           pins := (pins reset_cpu)\<lparr> d := 0x42 \<rparr> \<rparr>) \<and>
   cpu_clock never_last
        (reset_cpu\<lparr> state := ST_EXECUTE, ck_half_cycle := 6,
           pins := (pins reset_cpu)\<lparr> d := 0x42 \<rparr> \<rparr>)
     = Some (reset_cpu\<lparr> state := ST_EXECUTE, ck_half_cycle := 7,
           pins := (pins reset_cpu)\<lparr> d := 0x42 \<rparr> \<rparr>)"
  using execute_tick [of "reset_cpu\<lparr> state := ST_EXECUTE, ck_half_cycle := 6,
           pins := (pins reset_cpu)\<lparr> d := 0x42 \<rparr> \<rparr>" every_cycle_last 0]
    execute_tick [of "reset_cpu\<lparr> state := ST_EXECUTE, ck_half_cycle := 6,
           pins := (pins reset_cpu)\<lparr> d := 0x42 \<rparr> \<rparr>" never_last 0]
  by (auto simp: example_defs cpu_init_def cpu_update_clocks_def cpu_handle_read_def)

section \<open>Region selection\<close>

lemma read_select_lines:
  assumes "ck_half_cycle cpu = 0"
  shows "map (select_lines \<circ> fst \<circ> snd) (drive_read 8 (cpu_init_read cpu addr) dest) =
     (if RANGE addr 0x0000 0x7fff then
        [(True, True), (True, True), (False, True), (False, True),
         (False, True), (False, True), (False, True), (False, True)]
      else if RANGE addr 0xa000 0xfdff then
        [(True, True), (True, True), (True, False), (True, False),
         (True, False), (True, False), (True, False), (True, False)]
      else
        [(True, True), (True, True), (True, True), (True, True),
         (True, True), (True, True), (True, True), (True, True)])"
  using assms
  by (simp add: drive_read_numeral cpu_handle_read_def cpu_update_clocks_def cpu_init_read_def
      select_lines_def bit_simps Let_def)

lemma write_select_lines:
  assumes "ck_half_cycle cpu = 0"
  shows "map (select_lines \<circ> snd) (drive_write 8 (cpu_init_write cpu addr data)) =
     (if RANGE addr 0x0000 0x7fff then
        [(True, True), (True, True), (False, True), (False, True),
         (False, True), (False, True), (False, True), (False, True)]
      else if RANGE addr 0xa000 0xfdff then
        [(True, True), (True, True), (True, False), (True, False),
         (True, False), (True, False), (True, False), (True, False)]
      else
        [(True, True), (True, True), (True, True), (True, True),
         (True, True), (True, True), (True, True), (True, True)])"
  using assms
  by (simp add: drive_write_numeral cpu_handle_write_def cpu_update_clocks_def
      cpu_init_write_def select_lines_def bit_simps Let_def)

text \<open>
  C4. A read or a write begun at half-cycle 0 and stepped for the eight ticks of the
  machine cycle; each list gives the pair (A15, chip-select) right after the steps at
  half-cycles 0 to 7. For a ROM address A15 is high after the steps at 0 and 1, low from
  the step at half-cycle 2 on, and chip-select is high after every step. For a RAM address
  chip-select is high after the steps at 0 and 1, low from the step at half-cycle 2 on, and
  A15 is high after every step. For an HRAM/IO address both lines are high after every
  step: neither is pulled active at half-cycle 2.
\<close>

theorem region_selection:
  assumes "ck_half_cycle cpu = 0"
  shows
    "(RANGE addr 0x0000 0x7fff \<longrightarrow>
        map (select_lines \<circ> fst \<circ> snd) (drive_read 8 (cpu_init_read cpu addr) dest) =
          [(True, True), (True, True), (False, True), (False, True),
           (False, True), (False, True), (False, True), (False, True)] \<and>
        map (select_lines \<circ> snd) (drive_write 8 (cpu_init_write cpu addr data)) =
          [(True, True), (True, True), (False, True), (False, True),
           (False, True), (False, True), (False, True), (False, True)]) \<and>
     (RANGE addr 0xa000 0xfdff \<longrightarrow>
        map (select_lines \<circ> fst \<circ> snd) (drive_read 8 (cpu_init_read cpu addr) dest) =
          [(True, True), (True, True), (True, False), (True, False),
           (True, False), (True, False), (True, False), (True, False)] \<and>
        map (select_lines \<circ> snd) (drive_write 8 (cpu_init_write cpu addr data)) =
          [(True, True), (True, True), (True, False), (True, False),
           (True, False), (True, False), (True, False), (True, False)]) \<and>
     (RANGE addr 0xfe00 0xffff \<longrightarrow>
        map (select_lines \<circ> fst \<circ> snd) (drive_read 8 (cpu_init_read cpu addr) dest) =
          [(True, True), (True, True), (True, True), (True, True),
           (True, True), (True, True), (True, True), (True, True)] \<and>
        map (select_lines \<circ> snd) (drive_write 8 (cpu_init_write cpu addr data)) =
          [(True, True), (True, True), (True, True), (True, True),
           (True, True), (True, True), (True, True), (True, True)])"
proof (intro conjI impI)
  assume "RANGE addr 0x0000 0x7fff"
  then show
    "map (select_lines \<circ> fst \<circ> snd) (drive_read 8 (cpu_init_read cpu addr) dest) =
       [(True, True), (True, True), (False, True), (False, True),
        (False, True), (False, True), (False, True), (False, True)]"
    "map (select_lines \<circ> snd) (drive_write 8 (cpu_init_write cpu addr data)) =
       [(True, True), (True, True), (False, True), (False, True),
        (False, True), (False, True), (False, True), (False, True)]"
    by (simp_all add: read_select_lines [OF assms] write_select_lines [OF assms])
next
  assume "RANGE addr 0xa000 0xfdff"
  then show
    "map (select_lines \<circ> fst \<circ> snd) (drive_read 8 (cpu_init_read cpu addr) dest) =
       [(True, True), (True, True), (True, False), (True, False),
        (True, False), (True, False), (True, False), (True, False)]"
    "map (select_lines \<circ> snd) (drive_write 8 (cpu_init_write cpu addr data)) =
       [(True, True), (True, True), (True, False), (True, False),
        (True, False), (True, False), (True, False), (True, False)]"
    using region_exclusive(1) [of addr]
    by (simp_all add: read_select_lines [OF assms] write_select_lines [OF assms])
next
  assume "RANGE addr 0xfe00 0xffff"
  then show
    "map (select_lines \<circ> fst \<circ> snd) (drive_read 8 (cpu_init_read cpu addr) dest) =
       [(True, True), (True, True), (True, True), (True, True),
        (True, True), (True, True), (True, True), (True, True)]"
    "map (select_lines \<circ> snd) (drive_write 8 (cpu_init_write cpu addr data)) =
       [(True, True), (True, True), (True, True), (True, True),
        (True, True), (True, True), (True, True), (True, True)]"
    using region_exclusive(2,3) [of addr]
    by (simp_all add: read_select_lines [OF assms] write_select_lines [OF assms])
qed

theorem region_selection_witness:
  "ck_half_cycle reset_cpu = 0 \<and>
   RANGE 0x0100 0x0000 0x7fff \<and>
   map (select_lines \<circ> fst \<circ> snd) (drive_read 8 (cpu_init_read reset_cpu 0x0100) 0) =
     [(True, True), (True, True), (False, True), (False, True),
      (False, True), (False, True), (False, True), (False, True)] \<and>
   RANGE 0xc000 0xa000 0xfdff \<and>
   map (select_lines \<circ> snd) (drive_write 8 (cpu_init_write reset_cpu 0xc000 0x42)) =
     [(True, True), (True, True), (True, False), (True, False),
      (True, False), (True, False), (True, False), (True, False)] \<and>
   RANGE 0xff80 0xfe00 0xffff \<and>
   map (select_lines \<circ> snd) (drive_write 8 (cpu_init_write reset_cpu 0xff80 0x42)) =
     [(True, True), (True, True), (True, True), (True, True),
      (True, True), (True, True), (True, True), (True, True)]"
proof -
  have h: "ck_half_cycle reset_cpu = 0"
    by (simp add: example_defs cpu_init_def)
  have r: "RANGE 0x0100 0x0000 0x7fff" "RANGE 0xc000 0xa000 0xfdff"
      "RANGE 0xff80 0xfe00 0xffff"
    by (simp_all add: RANGE_def)
  have "map (select_lines \<circ> fst \<circ> snd) (drive_read 8 (cpu_init_read reset_cpu 0x0100) 0) =
     [(True, True), (True, True), (False, True), (False, True),
      (False, True), (False, True), (False, True), (False, True)]"
    using region_selection [OF h, of "0x0100" 0 "0x42"] r(1) by simp
  moreover have
    "map (select_lines \<circ> snd) (drive_write 8 (cpu_init_write reset_cpu 0xc000 0x42)) =
     [(True, True), (True, True), (True, False), (True, False),
      (True, False), (True, False), (True, False), (True, False)]"
    using region_selection [OF h, of "0xc000" 0 "0x42"] r(2) by simp
  moreover have
    "map (select_lines \<circ> snd) (drive_write 8 (cpu_init_write reset_cpu 0xff80 0x42)) =
     [(True, True), (True, True), (True, True), (True, True),
      (True, True), (True, True), (True, True), (True, True)]"
    using region_selection [OF h, of "0xff80" 0 "0x42"] r(3) by simp
  ultimately show ?thesis using h r by simp
qed

section \<open>Completion of a transaction\<close>

lemma drive_read_flags:
  "read_ongoing cpu \<Longrightarrow> unat (ck_half_cycle cpu) + n = 7 \<Longrightarrow>
   map (\<lambda>(r, c, b). (r, read_ongoing c, unat (ck_half_cycle c))) (drive_read (Suc n) cpu dest) =
     map (\<lambda>k. (True, True, k)) [7 - n ..< 7] @ [(False, False, 7)]"
proof (induction n arbitrary: cpu dest)
  case 0
  then have "ck_half_cycle cpu = 7" by (simp add: half_cycle_7)
  then show ?case by (simp add: cpu_handle_read_def)
next
  case (Suc n)
  obtain r c1 b where step: "cpu_handle_read cpu dest = (r, c1, b)"
    by (cases "cpu_handle_read cpu dest") auto
  from Suc.prems have ne: "ck_half_cycle cpu \<noteq> 7" by (simp add: half_cycle_7)
  from step ne have r: "r" using handle_read_returns [of cpu dest] by simp
  from step ne Suc.prems have f: "read_ongoing c1"
    using handle_read_flag [of cpu dest] by simp
  from step have h: "ck_half_cycle c1 = ck_half_cycle cpu"
    using handle_read_half_cycle [of cpu dest] by simp
  have "unat (ck_half_cycle (cpu_update_clocks c1)) = (unat (ck_half_cycle cpu) + 1) mod 8"
    by (simp add: update_clocks_fields h half_cycle_step)
  with Suc.prems have n: "unat (ck_half_cycle (cpu_update_clocks c1)) + n = 7" by simp
  have "read_ongoing (cpu_update_clocks c1)" using f by (simp add: update_clocks_fields)
  from Suc.IH [OF this n, of b] have
    "map (\<lambda>(r, c, b). (r, read_ongoing c, unat (ck_half_cycle c)))
       (drive_read (Suc n) (cpu_update_clocks c1) b) =
     map (\<lambda>k. (True, True, k)) [7 - n..<7] @ [(False, False, 7)]" .
  moreover from Suc.prems have "Suc (7 - Suc n) = 7 - n" by arith
  then have "[7 - Suc n ..< 7] = (7 - Suc n) # [7 - n ..< 7]"
    using upt_conv_Cons [of "7 - Suc n" 7] by simp
  moreover from Suc.prems have "unat (ck_half_cycle cpu) = 7 - Suc n" by simp
  ultimately show ?case using step r f h by simp
qed

lemma drive_write_flags:
  "write_ongoing cpu \<Longrightarrow> unat (ck_half_cycle cpu) + n = 7 \<Longrightarrow>
   map (\<lambda>(r, c). (r, write_ongoing c, unat (ck_half_cycle c))) (drive_write (Suc n) cpu) =
     map (\<lambda>k. (True, True, k)) [7 - n ..< 7] @ [(False, False, 7)]"
proof (induction n arbitrary: cpu)
  case 0
  then have "ck_half_cycle cpu = 7" by (simp add: half_cycle_7)
  then show ?case by (simp add: cpu_handle_write_def)
next
  case (Suc n)
  obtain r c1 where step: "cpu_handle_write cpu = (r, c1)"
    by (cases "cpu_handle_write cpu") auto
  from Suc.prems have ne: "ck_half_cycle cpu \<noteq> 7" by (simp add: half_cycle_7)
  from step ne have r: "r" using handle_write_returns [of cpu] by simp
  from step ne Suc.prems have f: "write_ongoing c1"
    using handle_write_flag [of cpu] by simp
  from step have h: "ck_half_cycle c1 = ck_half_cycle cpu"
    using handle_write_half_cycle [of cpu] by simp
  have "unat (ck_half_cycle (cpu_update_clocks c1)) = (unat (ck_half_cycle cpu) + 1) mod 8"
    by (simp add: update_clocks_fields h half_cycle_step)
  with Suc.prems have n: "unat (ck_half_cycle (cpu_update_clocks c1)) + n = 7" by simp
  have "write_ongoing (cpu_update_clocks c1)" using f by (simp add: update_clocks_fields)
  from Suc.IH [OF this n] have
    "map (\<lambda>(r, c). (r, write_ongoing c, unat (ck_half_cycle c)))
       (drive_write (Suc n) (cpu_update_clocks c1)) =
     map (\<lambda>k. (True, True, k)) [7 - n..<7] @ [(False, False, 7)]" .
  moreover from Suc.prems have "Suc (7 - Suc n) = 7 - n" by arith
  then have "[7 - Suc n ..< 7] = (7 - Suc n) # [7 - n ..< 7]"
    using upt_conv_Cons [of "7 - Suc n" 7] by simp
  moreover from Suc.prems have "unat (ck_half_cycle cpu) = 7 - Suc n" by simp
  ultimately show ?case using step r f h by simp
qed

text \<open>
  C5. A read or a write begun at any half-cycle \<open>h\<close> from 0 to 7 and stepped once per
  tick up to half-cycle 7, that is for \<open>n + 1\<close> ticks with \<open>h + n = 7\<close>. Each entry of
  the trace is: what the step returned, the in-flight flag right after the step, and the
  half-cycle of the step. The flag is set by the begin operation; every step before
  half-cycle 7 returns true and leaves the flag set; the step at half-cycle 7 returns false
  and clears the flag. In any core whatever, a step returns false exactly when the
  half-cycle is 7.
\<close>

theorem transaction_completion:
  assumes "unat (ck_half_cycle cpu) + n = 7"
  shows
    "read_ongoing (cpu_init_read cpu addr) \<and>
     map (\<lambda>(r, c, b). (r, read_ongoing c, unat (ck_half_cycle c)))
       (drive_read (Suc n) (cpu_init_read cpu addr) dest) =
       map (\<lambda>k. (True, True, k)) [7 - n ..< 7] @ [(False, False, 7)] \<and>
     write_ongoing (cpu_init_write cpu addr data) \<and>
     map (\<lambda>(r, c). (r, write_ongoing c, unat (ck_half_cycle c)))
       (drive_write (Suc n) (cpu_init_write cpu addr data)) =
       map (\<lambda>k. (True, True, k)) [7 - n ..< 7] @ [(False, False, 7)] \<and>
     fst (cpu_handle_read cpu dest) = (ck_half_cycle cpu \<noteq> 7) \<and>
     fst (cpu_handle_write cpu) = (ck_half_cycle cpu \<noteq> 7)"
proof -
  have "read_ongoing (cpu_init_read cpu addr)"
    and "unat (ck_half_cycle (cpu_init_read cpu addr)) + n = 7"
    using assms by (simp_all add: cpu_init_read_def)
  then have "map (\<lambda>(r, c, b). (r, read_ongoing c, unat (ck_half_cycle c)))
       (drive_read (Suc n) (cpu_init_read cpu addr) dest) =
       map (\<lambda>k. (True, True, k)) [7 - n ..< 7] @ [(False, False, 7)]"
    by (rule drive_read_flags)
  moreover have "write_ongoing (cpu_init_write cpu addr data)"
    and "unat (ck_half_cycle (cpu_init_write cpu addr data)) + n = 7"
    using assms by (simp_all add: cpu_init_write_def)
  then have "map (\<lambda>(r, c). (r, write_ongoing c, unat (ck_half_cycle c)))
       (drive_write (Suc n) (cpu_init_write cpu addr data)) =
       map (\<lambda>k. (True, True, k)) [7 - n ..< 7] @ [(False, False, 7)]"
    by (rule drive_write_flags)
  ultimately show ?thesis
    by (simp add: handle_read_returns handle_write_returns cpu_init_read_def cpu_init_write_def)
qed

theorem transaction_completion_witness:
  "unat (ck_half_cycle reset_cpu) + 7 = 7 \<and>
   map (\<lambda>(r, c, b). (r, read_ongoing c, unat (ck_half_cycle c)))
     (drive_read (Suc 7) (cpu_init_read reset_cpu 0x0100) 0) =
     [(True, True, 0), (True, True, 1), (True, True, 2), (True, True, 3),
      (True, True, 4), (True, True, 5), (True, True, 6), (False, False, 7)] \<and>
   map (\<lambda>(r, c). (r, write_ongoing c, unat (ck_half_cycle c)))
     (drive_write (Suc 7) (cpu_init_write reset_cpu 0xc000 0x42)) =
     [(True, True, 0), (True, True, 1), (True, True, 2), (True, True, 3),
      (True, True, 4), (True, True, 5), (True, True, 6), (False, False, 7)]"
proof -
  have h: "unat (ck_half_cycle reset_cpu) + 7 = 7"
    by (simp add: example_defs cpu_init_def)
  have l: "[7 - 7 ..< 7] = [0, 1, 2, 3, 4, 5, 6 :: nat]"
    by (simp add: upt_conv_Cons)
  show ?thesis
    using h transaction_completion [OF h, of "0x0100" 0 "0x42"]
      transaction_completion [OF h, of "0xc000" 0 "0x42"]
    by (simp only: l list.map append.simps simp_thms)
qed

section \<open>The clock divider\<close>

lemma clock_tick:
  assumes pres: "\<And>f s. ck_half_cycle (snd (exec f s)) = ck_half_cycle s"
  shows "\<exists>c1. cpu_clock exec cpu = Some c1 \<and>
           ck_half_cycle c1 = (ck_half_cycle cpu + 1) mod 8 \<and>
           phi (pins c1) = (\<not> bit (ck_half_cycle c1) 2)"
proof (cases "state cpu")
  case ST_FETCH
  then show ?thesis
    by (simp add: cpu_clock_def update_clocks_fields fetch_fields)
next
  case ST_EXECUTE
  obtain f where f: "instruction_table ! unat (instruction_latch cpu) = Some f"
    using instruction_table_lookup by blast
  obtain st c0 where e: "exec f cpu = (st, c0)" by (cases "exec f cpu") auto
  with pres [of f cpu] have "ck_half_cycle c0 = ck_half_cycle cpu" by simp
  with ST_EXECUTE f e show ?thesis
    by (simp add: cpu_clock_def update_clocks_fields fetch_fields)
next
  case ST_TEST
  then show ?thesis
    by (simp add: cpu_clock_def update_clocks_fields)
qed

lemma clock_ticks:
  assumes pres: "\<And>f s. ck_half_cycle (snd (exec f s)) = ck_half_cycle s"
    and "unat (ck_half_cycle cpu) < 8"
  shows "\<exists>c1. cpu_clocks exec n cpu = Some c1 \<and>
           unat (ck_half_cycle c1) = (unat (ck_half_cycle cpu) + n) mod 8 \<and>
           (0 < n \<longrightarrow> phi (pins c1) = (\<not> bit (ck_half_cycle c1) 2))"
  using assms(2)
proof (induction n arbitrary: cpu)
  case 0
  then show ?case by simp
next
  case (Suc n)
  have "\<exists>c1. cpu_clock exec cpu = Some c1 \<and>
           ck_half_cycle c1 = (ck_half_cycle cpu + 1) mod 8 \<and>
           phi (pins c1) = (\<not> bit (ck_half_cycle c1) 2)"
    by (rule clock_tick) (rule pres)
  then obtain c1 where c1: "cpu_clock exec cpu = Some c1"
      "ck_half_cycle c1 = (ck_half_cycle cpu + 1) mod 8"
      "phi (pins c1) = (\<not> bit (ck_half_cycle c1) 2)"
    by blast
  have u: "unat (ck_half_cycle c1) = (unat (ck_half_cycle cpu) + 1) mod 8"
    by (simp add: c1 half_cycle_step)
  then have "unat (ck_half_cycle c1) < 8" by simp
  from Suc.IH [OF this] obtain c2 where c2: "cpu_clocks exec n c1 = Some c2"
      "unat (ck_half_cycle c2) = (unat (ck_half_cycle c1) + n) mod 8"
      "0 < n \<longrightarrow> phi (pins c2) = (\<not> bit (ck_half_cycle c2) 2)"
    by blast
  have "unat (ck_half_cycle c2) = (unat (ck_half_cycle cpu) + Suc n) mod 8"
    by (simp add: c2 u mod_add_left_eq)
  moreover have "phi (pins c2) = (\<not> bit (ck_half_cycle c2) 2)"
  proof (cases n)
    case 0
    with c2 c1 show ?thesis by simp
  next
    case (Suc m)
    with c2 show ?thesis by simp
  qed
  ultimately show ?case using c1 c2 by simp
qed

text \<open>
  C6. The handlers are outside the code under study; assume that none of them writes the
  half-cycle counter. Then, from reset, \<open>n\<close> ticks all succeed and leave the half-cycle at
  \<open>n mod 8\<close>; and after at least one tick the phase pin is the negation of bit 2 of the
  half-cycle, so it is false exactly when the half-cycle is 4, 5, 6 or 7.
\<close>

theorem half_cycle_wraparound:
  assumes "\<forall>f s. ck_half_cycle (snd (exec f s)) = ck_half_cycle s"
  shows "\<exists>c1. cpu_clocks exec n (cpu_init cpu lr35902_pins) = Some c1 \<and>
           unat (ck_half_cycle c1) = n mod 8 \<and>
           (0 < n \<longrightarrow>
              phi (pins c1) = (\<not> bit (ck_half_cycle c1) 2) \<and>
              (phi (pins c1) = False) = (unat (ck_half_cycle c1) \<in> {4, 5, 6, 7}))"
proof -
  have z: "unat (ck_half_cycle (cpu_init cpu lr35902_pins)) = 0"
    by (simp add: cpu_init_def)
  have "\<exists>c1. cpu_clocks exec n (cpu_init cpu lr35902_pins) = Some c1 \<and>
           unat (ck_half_cycle c1) =
             (unat (ck_half_cycle (cpu_init cpu lr35902_pins)) + n) mod 8 \<and>
           (0 < n \<longrightarrow> phi (pins c1) = (\<not> bit (ck_half_cycle c1) 2))"
    using assms by (intro clock_ticks) (simp_all add: z)
  then obtain c1 where c1: "cpu_clocks exec n (cpu_init cpu lr35902_pins) = Some c1"
      "unat (ck_half_cycle c1) = n mod 8"
      "0 < n \<longrightarrow> phi (pins c1) = (\<not> bit (ck_half_cycle c1) 2)"
    by (auto simp: z)
  from c1(2) have "unat (ck_half_cycle c1) < 8" by simp
  then have "bit (ck_half_cycle c1) 2 = (unat (ck_half_cycle c1) \<in> {4, 5, 6, 7})"
    by (rule bit2_high_half)
  with c1 show ?thesis by auto
qed

theorem half_cycle_wraparound_witness:
  "(\<forall>f s. ck_half_cycle (snd (every_cycle_last f s)) = ck_half_cycle s) \<and>
   map_option (\<lambda>c. (unat (ck_half_cycle c), phi (pins c)))
     (cpu_clocks every_cycle_last 13 (cpu_init blank_cpu floating_pins)) = Some (5, False) \<and>
   map_option (\<lambda>c. (unat (ck_half_cycle c), phi (pins c)))
     (cpu_clocks every_cycle_last 17 (cpu_init blank_cpu floating_pins)) = Some (1, True)"
  using half_cycle_wraparound [of every_cycle_last 13 blank_cpu floating_pins]
    half_cycle_wraparound [of every_cycle_last 17 blank_cpu floating_pins]
  by (auto simp: every_cycle_last_def)

end
